theory Spec2Isabelle
  imports Main "HOL-Library.Sublist"
begin

section \<open>The user-information tool (my-user-info.py)\<close>

text \<open>
  The repository is one Python function, \<^verbatim>\<open>get_my_user_information(tool_input, bot)\<close>.
  It prints a banner with the caller's email, asks the data layer for the user record
  with that email, and returns either the fixed text \<^verbatim>\<open>"No user information"\<close> or
  a formatted report built by one f-string.

  A Python \<^verbatim>\<open>str\<close> is modelled as the \<open>string\<close> of its UTF-8 bytes: the fixed Chinese
  labels of the f-string are written out byte by byte, and concatenation of strings is
  concatenation of their encodings. Python's unbounded integers are \<open>int\<close>.
\<close>

subsection \<open>Data model\<close>

text \<open>
  The User entity the report reads. The class itself lives in the data layer; its
  attributes are the six the f-string reads, with the types Section 3 of the
  specification gives them.
\<close>

record user =
  email :: string
  avatar :: string
  description :: string
  total_requests :: int
  used_requests :: int
  is_feishu_user :: bool

text \<open>
  The context object \<^verbatim>\<open>bot\<close>. The function reads two of its attributes: \<^verbatim>\<open>bot.email\<close>, kept
  here, and \<^verbatim>\<open>bot.db\<close>, the session provider, which is the function \<open>db\<close> below because the
  store it opens belongs to the world and not to the object.
\<close>

record bot =
  email :: string

text \<open>What the function can raise: both failures come from the data layer.\<close>

datatype error = StopIteration | StoreUnreachable

text \<open>
  Modelled from the spec: the external data store, which is not part of the source. It is
  a table of User rows, or it cannot be reached (the infrastructure failure of Section 7).
  A session is a handle on the store.
\<close>

datatype store = Store "user list" | Unreachable

type_synonym session = store

text \<open>The world outside the function: the standard output and the data store.\<close>

record world =
  stdout :: string
  store :: store

subsection \<open>Python built-ins\<close>

definition newline :: char where
  "newline = CHR 0x0A"

definition dquote :: char where
  "dquote = CHR 0x22"

text \<open>\<^verbatim>\<open>print(s)\<close> writes \<open>s\<close> and a line end to the standard output.\<close>

definition print :: "string \<Rightarrow> world \<Rightarrow> world" where
  "print s w = w\<lparr>stdout := stdout w @ s @ [newline]\<rparr>"

text \<open>\<^verbatim>\<open>next(it)\<close> takes the first item of an iterator and raises StopIteration on an empty one.\<close>

fun next_of :: "'a list \<Rightarrow> error + 'a" where
  "next_of [] = Inl StopIteration"
| "next_of (x # _) = Inr x"

text \<open>
  An f-string field \<^verbatim>\<open>{e}\<close> with no format specification is \<^verbatim>\<open>format(e, "")\<close>, which is
  \<^verbatim>\<open>str(e)\<close> for a string, an integer and a boolean. For an integer that is the decimal
  numeral with a leading minus sign for a negative number.
\<close>

fun digits :: "nat \<Rightarrow> string" where
  "digits n = (if n < 10 then [char_of (48 + n)] else digits (n div 10) @ [char_of (48 + n mod 10)])"

declare digits.simps [simp del]

definition str_int :: "int \<Rightarrow> string" where
  "str_int i = (if i < 0 then CHR ''-'' # digits (nat (- i)) else digits (nat i))"

definition str_bool :: "bool \<Rightarrow> string" where
  "str_bool b = (if b then ''True'' else ''False'')"

text \<open>
  The reading of a decimal numeral, Python's \<^verbatim>\<open>int(s)\<close> on the output of \<^verbatim>\<open>str\<close>; it is used
  only to say which integer a rendered count denotes.
\<close>

definition digit_value :: "char \<Rightarrow> nat" where
  "digit_value c = of_char c - 48"

definition nat_of_digits :: "string \<Rightarrow> nat" where
  "nat_of_digits s = foldl (\<lambda>a c. 10 * a + digit_value c) 0 s"

fun int_of_str :: "string \<Rightarrow> int" where
  "int_of_str [] = 0"
| "int_of_str (c # cs) = (if c = CHR ''-'' then - int (nat_of_digits cs) else int (nat_of_digits (c # cs)))"

subsection \<open>The data layer\<close>

text \<open>
  Modelled from the spec: \<^verbatim>\<open>bot.db()\<close>, the connection provider, which is not part of the
  source. Section 6 has it hand out one connection per invocation, so the iterator it
  returns yields one session on the world's store.
\<close>

definition db :: "bot \<Rightarrow> world \<Rightarrow> session list" where
  "db b w = [store w]"

text \<open>
  Modelled from the spec: \<^verbatim>\<open>crud_user.get_user_by_email(session, email)\<close>, which is not part
  of the source. Sections 4.1 and 6 describe it as the single query "get user record by
  email": it returns the User whose email is the identity, or an absent result when
  there is none, and it fails when the store cannot be reached. It reads only.
\<close>

fun get_user_by_email :: "session \<Rightarrow> string \<Rightarrow> error + user option" where
  "get_user_by_email Unreachable e = Inl StoreUnreachable"
| "get_user_by_email (Store rows) e = Inr (find (\<lambda>u. user.email u = e) rows)"

subsection \<open>The fixed text of the report\<close>

text \<open>
  The Chinese labels of the f-string in UTF-8. \<open>zh_heading\<close> is U+60A8 U+7684 U+767B
  U+5F55 U+7528 U+6237 U+4FE1 U+606F U+5982 U+4E0B ("your login user information is as
  follows"), \<open>zh_colon\<close> is the full-width colon U+FF1A, \<open>zh_avatar\<close> is U+5934 U+50CF
  ("avatar"), \<open>zh_email\<close> is U+90AE U+7BB1 ("email"), \<open>zh_description\<close> is U+63CF U+8FF0
  ("description"), \<open>zh_remaining\<close> is U+5269 U+4F59 U+4F7F U+7528 U+6B21 U+6570 ("remaining
  number of uses") and \<open>zh_is_feishu\<close> is U+662F U+5426 U+98DE U+4E66 U+7528 U+6237 ("is a
  Feishu user").
\<close>

definition zh_heading :: string where
  "zh_heading =
    [CHR 0xE6, CHR 0x82, CHR 0xA8, CHR 0xE7, CHR 0x9A, CHR 0x84, CHR 0xE7, CHR 0x99, CHR 0xBB,
     CHR 0xE5, CHR 0xBD, CHR 0x95, CHR 0xE7, CHR 0x94, CHR 0xA8, CHR 0xE6, CHR 0x88, CHR 0xB7,
     CHR 0xE4, CHR 0xBF, CHR 0xA1, CHR 0xE6, CHR 0x81, CHR 0xAF, CHR 0xE5, CHR 0xA6, CHR 0x82,
     CHR 0xE4, CHR 0xB8, CHR 0x8B]"

definition zh_colon :: string where
  "zh_colon = [CHR 0xEF, CHR 0xBC, CHR 0x9A]"

definition zh_avatar :: string where
  "zh_avatar = [CHR 0xE5, CHR 0xA4, CHR 0xB4, CHR 0xE5, CHR 0x83, CHR 0x8F]"

definition zh_email :: string where
  "zh_email = [CHR 0xE9, CHR 0x82, CHR 0xAE, CHR 0xE7, CHR 0xAE, CHR 0xB1]"

definition zh_description :: string where
  "zh_description = [CHR 0xE6, CHR 0x8F, CHR 0x8F, CHR 0xE8, CHR 0xBF, CHR 0xB0]"

definition zh_remaining :: string where
  "zh_remaining =
    [CHR 0xE5, CHR 0x89, CHR 0xA9, CHR 0xE4, CHR 0xBD, CHR 0x99, CHR 0xE4, CHR 0xBD, CHR 0xBF,
     CHR 0xE7, CHR 0x94, CHR 0xA8, CHR 0xE6, CHR 0xAC, CHR 0xA1, CHR 0xE6, CHR 0x95, CHR 0xB0]"

definition zh_is_feishu :: string where
  "zh_is_feishu =
    [CHR 0xE6, CHR 0x98, CHR 0xAF, CHR 0xE5, CHR 0x90, CHR 0xA6, CHR 0xE9, CHR 0xA3, CHR 0x9E,
     CHR 0xE4, CHR 0xB9, CHR 0xA6, CHR 0xE7, CHR 0x94, CHR 0xA8, CHR 0xE6, CHR 0x88, CHR 0xB7]"

text \<open>
  The literal pieces of the f-string between its fields, in source order. Every written
  line-feed escape is followed by the line break of the triple-quoted literal itself, so the lines
  of the report are separated by two line ends and the last line has one.
\<close>

definition blank_line :: string where
  "blank_line = [newline, newline]"

definition report_head :: string where
  "report_head = zh_heading @ zh_colon @ blank_line"

definition image_open :: string where
  "image_open = zh_avatar @ zh_colon @ ''!['' @ zh_avatar @ '']('' "

definition image_close :: string where
  "image_close = '' '' @ [dquote] @ ''=60x40'' @ [dquote] @ '')'' "

definition email_label :: string where
  "email_label = zh_email @ '': ''"

definition description_label :: string where
  "description_label = zh_description @ '': ''"

definition remaining_label :: string where
  "remaining_label = zh_remaining @ '': ''"

definition feishu_label :: string where
  "feishu_label = zh_is_feishu @ zh_colon"

subsection \<open>The operation\<close>

text \<open>
  The f-string assigned to \<^verbatim>\<open>content\<close> (lines 14 to 20 of the source): the heading, the
  Markdown image built from \<^verbatim>\<open>user.avatar\<close> with the title \<^verbatim>\<open>"=60x40"\<close>, the email, the
  description, the difference \<^verbatim>\<open>user.total_requests - user.used_requests\<close> and the flag
  \<^verbatim>\<open>user.is_feishu_user\<close>.
\<close>

definition content :: "user \<Rightarrow> string" where
  "content user =
     report_head @
     image_open @ avatar user @ image_close @ blank_line @
     email_label @ user.email user @ blank_line @
     description_label @ description user @ blank_line @
     remaining_label @ str_int (total_requests user - used_requests user) @ blank_line @
     feishu_label @ str_bool (is_feishu_user user) @ [newline]"

text \<open>The banner of line 9: a line end, 27 equals signs, the email, 27 equals signs, a line end.\<close>

definition banner :: "string \<Rightarrow> string" where
  "banner e = [newline] @ replicate 27 CHR ''='' @ e @ replicate 27 CHR ''='' @ [newline]"

text \<open>
  \<^verbatim>\<open>get_my_user_information(tool_input, bot)\<close>: the result is the returned string or the
  exception that escapes, together with the world after the call. \<^verbatim>\<open>not user\<close> holds
  for \<^verbatim>\<open>None\<close> only, a User object being true.
\<close>

definition get_my_user_information :: "'a \<Rightarrow> bot \<Rightarrow> world \<Rightarrow> (error + string) \<times> world" where
  "get_my_user_information tool_input b w =
     (let w1 = print (banner (bot.email b)) w in
      case next_of (db b w1) of
        Inl e \<Rightarrow> (Inl e, w1)
      | Inr session \<Rightarrow>
          (case get_user_by_email session (bot.email b) of
             Inl e \<Rightarrow> (Inl e, w1)
           | Inr None \<Rightarrow> (Inr ''No user information'', w1)
           | Inr (Some user) \<Rightarrow> (Inr (content user), w1)))"

subsection \<open>Example data\<close>

text \<open>
  The user of the specification's example, a user who has used more requests than the
  allotment, and a store that holds both.
\<close>

definition example_user :: user where
  "example_user =
     \<lparr>user.email = ''a@x.com'', avatar = ''http://img/1.png'', description = ''VIP'',
      total_requests = 100, used_requests = 30, is_feishu_user = True\<rparr>"

definition overdrawn_user :: user where
  "overdrawn_user =
     \<lparr>user.email = ''o@x.com'', avatar = ''o.png'', description = ''over the quota'',
      total_requests = 5, used_requests = 8, is_feishu_user = False\<rparr>"

definition example_world :: world where
  "example_world = \<lparr>stdout = [], store = Store [example_user, overdrawn_user]\<rparr>"

section \<open>Properties\<close>

subsection \<open>How the call depends on the lookup\<close>

lemma result_by_lookup:
  "fst (get_my_user_information t b w) =
     (case get_user_by_email (store w) (bot.email b) of
        Inl e \<Rightarrow> Inl e
      | Inr None \<Rightarrow> Inr ''No user information''
      | Inr (Some u) \<Rightarrow> Inr (content u))"
  by (simp add: get_my_user_information_def db_def print_def split: sum.splits option.splits)

lemma world_after_call:
  "snd (get_my_user_information t b w) = print (banner (bot.email b)) w"
  by (simp add: get_my_user_information_def db_def Let_def split: sum.splits option.splits)

lemma found_result:
  "get_user_by_email (store w) (bot.email b) = Inr (Some u) \<Longrightarrow>
   fst (get_my_user_information t b w) = Inr (content u)"
  by (simp add: result_by_lookup)

subsection \<open>Decimal numerals\<close>

lemma nat_of_digits_snoc:
  "nat_of_digits (s @ [c]) = 10 * nat_of_digits s + digit_value c"
  by (simp add: nat_of_digits_def)

lemma digit_value_char_of:
  "(d::nat) < 10 \<Longrightarrow> digit_value (char_of (48 + d)) = d"
  by (simp add: digit_value_def)

lemma nat_of_digits_digits: "nat_of_digits (digits n) = n"
proof (induction n rule: digits.induct)
  case (1 n)
  show ?case
  proof (cases "n < 10")
    case True
    then show ?thesis
      by (subst digits.simps) (simp add: nat_of_digits_def digit_value_char_of)
  next
    case False
    then have "nat_of_digits (digits (n div 10)) = n div 10"
      using "1.IH" by simp
    then show ?thesis
      using False by (subst digits.simps) (simp add: nat_of_digits_snoc digit_value_char_of)
  qed
qed

lemma char_of_digit_not_minus: "(d::nat) < 10 \<Longrightarrow> char_of (48 + d) \<noteq> CHR ''-''"
proof
  assume d: "d < 10" and eq: "char_of (48 + d) = CHR ''-''"
  from eq have "of_char (char_of (48 + d)) = (of_char CHR ''-'' :: nat)" by simp
  with d show False by simp
qed

lemma digits_head: "\<exists>c cs. digits n = c # cs \<and> c \<noteq> CHR ''-''"
proof (induction n rule: digits.induct)
  case (1 n)
  show ?case
  proof (cases "n < 10")
    case True
    then show ?thesis
      by (subst digits.simps) (simp add: char_of_digit_not_minus)
  next
    case False
    then obtain c cs where "digits (n div 10) = c # cs" "c \<noteq> CHR ''-''"
      using "1.IH" by auto
    then show ?thesis
      using False by (subst digits.simps) simp
  qed
qed

lemma int_of_str_str_int: "int_of_str (str_int i) = i"
proof (cases "i < 0")
  case True
  then show ?thesis by (simp add: str_int_def nat_of_digits_digits)
next
  case False
  obtain c cs where d: "digits (nat i) = c # cs" "c \<noteq> CHR ''-''"
    using digits_head by blast
  have "nat_of_digits (c # cs) = nat i"
    using nat_of_digits_digits [of "nat i"] d by simp
  with False d show ?thesis by (simp add: str_int_def)
qed

subsection \<open>The example store\<close>

lemma lookup_example_user:
  "get_user_by_email (store example_world) ''a@x.com'' = Inr (Some example_user)"
  by (simp add: example_world_def example_user_def overdrawn_user_def)

lemma lookup_overdrawn_user:
  "get_user_by_email (store example_world) ''o@x.com'' = Inr (Some overdrawn_user)"
  by (simp add: example_world_def example_user_def overdrawn_user_def)

lemma example_user_content:
  "content example_user =
     zh_heading @ zh_colon @ blank_line @
     zh_avatar @ zh_colon @ ''!['' @ zh_avatar @ '']('' @ ''http://img/1.png'' @
       '' '' @ [dquote] @ ''=60x40'' @ [dquote] @ '')'' @ blank_line @
     zh_email @ '': '' @ ''a@x.com'' @ blank_line @
     zh_description @ '': '' @ ''VIP'' @ blank_line @
     zh_remaining @ '': '' @ ''70'' @ blank_line @
     zh_is_feishu @ zh_colon @ ''True'' @ [newline]"
  by code_simp

lemma example_user_content_parts:
  "sublist (remaining_label @ ''70'' @ blank_line) (content example_user)"
  "sublist ''a@x.com'' (content example_user)"
  "sublist ''VIP'' (content example_user)"
  "sublist (feishu_label @ ''True'' @ [newline]) (content example_user)"
  by code_simp+

subsection \<open>The not-found outcome\<close>

text \<open>
  Claim C1. When the store can be read and no row of it has the caller's email, the
  operation returns the fixed text \<^verbatim>\<open>No user information\<close> and nothing else: the result
  is that one constant, whatever the rows, the identity and the tool input are.
\<close>

theorem not_found_returns_sentinel:
  assumes "store w = Store rows"
    and "\<forall>u \<in> set rows. user.email u \<noteq> bot.email b"
  shows "fst (get_my_user_information tool_input b w) = Inr ''No user information''"
proof -
  have "find (\<lambda>u. user.email u = bot.email b) rows = None"
    using assms(2) by (simp add: find_None_iff)
  then show ?thesis
    using assms(1) by (simp add: result_by_lookup)
qed

theorem not_found_returns_sentinel_witness:
  "store example_world = Store [example_user, overdrawn_user] \<and>
   user.email example_user \<noteq> ''b@x.com'' \<and> user.email overdrawn_user \<noteq> ''b@x.com'' \<and>
   fst (get_my_user_information () \<lparr>bot.email = ''b@x.com''\<rparr> example_world)
     = Inr ''No user information''"
  using not_found_returns_sentinel [of example_world "[example_user, overdrawn_user]"
      "\<lparr>bot.email = ''b@x.com''\<rparr>" "()"]
  by (simp add: example_world_def example_user_def overdrawn_user_def)

subsection \<open>The report of a user that was found\<close>

text \<open>
  Claim C2. When the lookup finds a user, the report ends with the remaining-count line
  followed by the flag line, and the count on that line is the decimal numeral of
  \<open>total_requests - used_requests\<close>: reading the numeral back gives that difference
  exactly, for every pair of integers, so also when the difference is zero or negative.
  Nothing is clamped.
\<close>

theorem remaining_count_is_exact_difference:
  assumes "get_user_by_email (store w) (bot.email b) = Inr (Some u)"
  shows "(\<exists>pre. fst (get_my_user_information tool_input b w) =
            Inr (pre @ remaining_label @ str_int (total_requests u - used_requests u) @
                 blank_line @ feishu_label @ str_bool (is_feishu_user u) @ [newline])) \<and>
         int_of_str (str_int (total_requests u - used_requests u)) =
           total_requests u - used_requests u"
proof
  have "content u =
      (report_head @ image_open @ avatar u @ image_close @ blank_line @
       email_label @ user.email u @ blank_line @
       description_label @ description u @ blank_line) @
      remaining_label @ str_int (total_requests u - used_requests u) @
      blank_line @ feishu_label @ str_bool (is_feishu_user u) @ [newline]"
    by (simp add: content_def)
  then show "\<exists>pre. fst (get_my_user_information tool_input b w) =
            Inr (pre @ remaining_label @ str_int (total_requests u - used_requests u) @
                 blank_line @ feishu_label @ str_bool (is_feishu_user u) @ [newline])"
    using found_result [OF assms] by metis
  show "int_of_str (str_int (total_requests u - used_requests u)) =
           total_requests u - used_requests u"
    by (rule int_of_str_str_int)
qed

theorem remaining_count_is_exact_difference_witness:
  "get_user_by_email (store example_world) ''o@x.com'' = Inr (Some overdrawn_user) \<and>
   (\<exists>pre. fst (get_my_user_information () \<lparr>bot.email = ''o@x.com''\<rparr> example_world) =
            Inr (pre @ remaining_label @ ''-3'' @
                 blank_line @ feishu_label @ ''False'' @ [newline])) \<and>
   int_of_str ''-3'' = - 3"
proof -
  have s: "str_int (total_requests overdrawn_user - used_requests overdrawn_user) = ''-3''"
    unfolding overdrawn_user_def by code_simp
  have f: "str_bool (is_feishu_user overdrawn_user) = ''False''"
    by (simp add: overdrawn_user_def str_bool_def)
  have d: "total_requests overdrawn_user - used_requests overdrawn_user = - 3"
    by (simp add: overdrawn_user_def)
  show ?thesis
    using remaining_count_is_exact_difference
      [of example_world "\<lparr>bot.email = ''o@x.com''\<rparr>" overdrawn_user "()"]
      lookup_overdrawn_user
    unfolding s f by (simp add: d)
qed

text \<open>
  Claim C3. When the lookup finds a user, the report contains the user's email and the
  user's description as they are, byte for byte: each stands between its label and the
  blank line that ends its line, with nothing cut off, escaped or replaced.
\<close>

theorem email_and_description_are_literal:
  assumes "get_user_by_email (store w) (bot.email b) = Inr (Some u)"
  shows "\<exists>out. fst (get_my_user_information tool_input b w) = Inr out \<and>
           sublist (user.email u) out \<and> sublist (description u) out \<and>
           sublist (email_label @ user.email u @ blank_line) out \<and>
           sublist (description_label @ description u @ blank_line) out"
proof -
  let ?out = "content u"
  have e: "?out = (report_head @ image_open @ avatar u @ image_close @ blank_line) @
      (email_label @ user.email u @ blank_line) @
      (description_label @ description u @ blank_line @
       remaining_label @ str_int (total_requests u - used_requests u) @ blank_line @
       feishu_label @ str_bool (is_feishu_user u) @ [newline])"
    by (simp add: content_def)
  have d: "?out = (report_head @ image_open @ avatar u @ image_close @ blank_line @
       email_label @ user.email u @ blank_line) @
      (description_label @ description u @ blank_line) @
      (remaining_label @ str_int (total_requests u - used_requests u) @ blank_line @
       feishu_label @ str_bool (is_feishu_user u) @ [newline])"
    by (simp add: content_def)
  have el: "sublist (email_label @ user.email u @ blank_line) ?out"
    by (subst e) (rule sublist_appendI)
  have dl: "sublist (description_label @ description u @ blank_line) ?out"
    by (subst d) (rule sublist_appendI)
  have "sublist (user.email u) (email_label @ user.email u @ blank_line)"
    by (rule sublist_appendI)
  from this el have e1: "sublist (user.email u) ?out"
    by (rule sublist_order.order_trans)
  have "sublist (description u) (description_label @ description u @ blank_line)"
    by (rule sublist_appendI)
  from this dl have d1: "sublist (description u) ?out"
    by (rule sublist_order.order_trans)
  show ?thesis
    using found_result [OF assms, of tool_input] e1 d1 el dl by simp
qed

theorem email_and_description_are_literal_witness:
  "get_user_by_email (store example_world) ''o@x.com'' = Inr (Some overdrawn_user) \<and>
   (\<exists>out. fst (get_my_user_information () \<lparr>bot.email = ''o@x.com''\<rparr> example_world) = Inr out \<and>
      sublist ''o@x.com'' out \<and> sublist ''over the quota'' out \<and>
      sublist (email_label @ ''o@x.com'' @ blank_line) out \<and>
      sublist (description_label @ ''over the quota'' @ blank_line) out)"
  using email_and_description_are_literal
      [of example_world "\<lparr>bot.email = ''o@x.com''\<rparr>" overdrawn_user "()"]
    lookup_overdrawn_user
  by (simp add: overdrawn_user_def)

text \<open>
  Claim C4. When the lookup finds a user, the report is, in this order: the heading, the
  Markdown image whose target is the avatar and whose title is the size hint
  \<^verbatim>\<open>"=60x40"\<close>, the email, the description, the remaining count and the Feishu flag, each
  after its fixed label and each line ended by its line ends.
\<close>

theorem report_fields_in_fixed_order:
  assumes "get_user_by_email (store w) (bot.email b) = Inr (Some u)"
  shows "fst (get_my_user_information tool_input b w) =
     Inr (zh_heading @ zh_colon @ blank_line @
          zh_avatar @ zh_colon @ ''!['' @ zh_avatar @ '']('' @ avatar u @
            '' '' @ [dquote] @ ''=60x40'' @ [dquote] @ '')'' @ blank_line @
          zh_email @ '': '' @ user.email u @ blank_line @
          zh_description @ '': '' @ description u @ blank_line @
          zh_remaining @ '': '' @ str_int (total_requests u - used_requests u) @ blank_line @
          zh_is_feishu @ zh_colon @ str_bool (is_feishu_user u) @ [newline])"
  using found_result [OF assms, of tool_input]
  by (simp add: content_def report_head_def image_open_def image_close_def email_label_def
      description_label_def remaining_label_def feishu_label_def)

theorem report_fields_in_fixed_order_witness:
  "get_user_by_email (store example_world) ''a@x.com'' = Inr (Some example_user) \<and>
   fst (get_my_user_information () \<lparr>bot.email = ''a@x.com''\<rparr> example_world) =
     Inr (zh_heading @ zh_colon @ blank_line @
          zh_avatar @ zh_colon @ ''!['' @ zh_avatar @ '']('' @ ''http://img/1.png'' @
            '' '' @ [dquote] @ ''=60x40'' @ [dquote] @ '')'' @ blank_line @
          zh_email @ '': '' @ ''a@x.com'' @ blank_line @
          zh_description @ '': '' @ ''VIP'' @ blank_line @
          zh_remaining @ '': '' @ ''70'' @ blank_line @
          zh_is_feishu @ zh_colon @ ''True'' @ [newline])"
proof -
  have s: "str_int (total_requests example_user - used_requests example_user) = ''70''"
    unfolding example_user_def by code_simp
  have f: "str_bool (is_feishu_user example_user) = ''True''"
    by (simp add: example_user_def str_bool_def)
  show ?thesis
    using report_fields_in_fixed_order
      [of example_world "\<lparr>bot.email = ''a@x.com''\<rparr>" example_user "()"]
      lookup_example_user
    unfolding s f by (simp add: example_user_def)
qed

text \<open>
  Claim C5. When the lookup finds a user, the last line of the report is the Feishu label
  followed by \<^verbatim>\<open>True\<close> when \<open>is_feishu_user\<close> holds and by \<^verbatim>\<open>False\<close> when it does not:
  one of two fixed texts, chosen by the flag alone.
\<close>

theorem feishu_flag_is_one_of_two_literals:
  assumes "get_user_by_email (store w) (bot.email b) = Inr (Some u)"
  shows "\<exists>pre. fst (get_my_user_information tool_input b w) =
           Inr (pre @ feishu_label @ (if is_feishu_user u then ''True'' else ''False'') @ [newline])"
proof -
  have "content u =
      (report_head @ image_open @ avatar u @ image_close @ blank_line @
       email_label @ user.email u @ blank_line @
       description_label @ description u @ blank_line @
       remaining_label @ str_int (total_requests u - used_requests u) @ blank_line) @
      feishu_label @ (if is_feishu_user u then ''True'' else ''False'') @ [newline]"
    by (simp add: content_def str_bool_def)
  then show ?thesis
    using found_result [OF assms, of tool_input] by metis
qed

theorem feishu_flag_is_one_of_two_literals_witness:
  "get_user_by_email (store example_world) ''a@x.com'' = Inr (Some example_user) \<and>
   get_user_by_email (store example_world) ''o@x.com'' = Inr (Some overdrawn_user) \<and>
   (\<exists>pre. fst (get_my_user_information () \<lparr>bot.email = ''a@x.com''\<rparr> example_world) =
           Inr (pre @ feishu_label @ ''True'' @ [newline])) \<and>
   (\<exists>pre. fst (get_my_user_information () \<lparr>bot.email = ''o@x.com''\<rparr> example_world) =
           Inr (pre @ feishu_label @ ''False'' @ [newline]))"
  using feishu_flag_is_one_of_two_literals
      [of example_world "\<lparr>bot.email = ''a@x.com''\<rparr>" example_user "()"]
    feishu_flag_is_one_of_two_literals
      [of example_world "\<lparr>bot.email = ''o@x.com''\<rparr>" overdrawn_user "()"]
    lookup_example_user lookup_overdrawn_user
  by (simp add: example_user_def overdrawn_user_def)

text \<open>
  Claim C6. For the user of the specification's example (email \<^verbatim>\<open>a@x.com\<close>, avatar
  \<^verbatim>\<open>http://img/1.png\<close>, description \<^verbatim>\<open>VIP\<close>, 100 requests in total, 30 used, a Feishu
  user) the operation returns the report written out below: it has the remaining count
  70 on the count line, the email \<^verbatim>\<open>a@x.com\<close>, the description \<^verbatim>\<open>VIP\<close> and the flag text
  \<^verbatim>\<open>True\<close> on the last line.
\<close>

theorem spec_example_report:
  "fst (get_my_user_information tool_input \<lparr>bot.email = ''a@x.com''\<rparr>
         \<lparr>stdout = printed, store = Store [example_user]\<rparr>) = Inr (content example_user) \<and>
   example_user =
     \<lparr>user.email = ''a@x.com'', avatar = ''http://img/1.png'', description = ''VIP'',
      total_requests = 100, used_requests = 30, is_feishu_user = True\<rparr> \<and>
   content example_user =
     zh_heading @ zh_colon @ blank_line @
     zh_avatar @ zh_colon @ ''!['' @ zh_avatar @ '']('' @ ''http://img/1.png'' @
       '' '' @ [dquote] @ ''=60x40'' @ [dquote] @ '')'' @ blank_line @
     zh_email @ '': '' @ ''a@x.com'' @ blank_line @
     zh_description @ '': '' @ ''VIP'' @ blank_line @
     zh_remaining @ '': '' @ ''70'' @ blank_line @
     zh_is_feishu @ zh_colon @ ''True'' @ [newline] \<and>
   sublist (remaining_label @ ''70'' @ blank_line) (content example_user) \<and>
   sublist ''a@x.com'' (content example_user) \<and>
   sublist ''VIP'' (content example_user) \<and>
   sublist (feishu_label @ ''True'' @ [newline]) (content example_user)"
proof -
  have "get_user_by_email (Store [example_user]) ''a@x.com'' = Inr (Some example_user)"
    by (simp add: example_user_def)
  then have "fst (get_my_user_information tool_input \<lparr>bot.email = ''a@x.com''\<rparr>
         \<lparr>stdout = printed, store = Store [example_user]\<rparr>) = Inr (content example_user)"
    by (simp add: result_by_lookup)
  then show ?thesis
    using example_user_content example_user_content_parts
    by (simp add: example_user_def)
qed

subsection \<open>What the output depends on, and what the call changes\<close>

text \<open>
  Claim C7. The returned value is a function of what the lookup observes: two calls whose
  lookups give the same result (the same user snapshot, the same absent result, or the
  same failure) return the same string, whatever the tool inputs, the rest of the two
  stores and the earlier contents of the standard output are.
\<close>

theorem output_determined_by_lookup:
  assumes "get_user_by_email (store w1) (bot.email b1) = get_user_by_email (store w2) (bot.email b2)"
  shows "fst (get_my_user_information t1 b1 w1) = fst (get_my_user_information t2 b2 w2)"
  by (simp add: result_by_lookup assms)

theorem output_determined_by_lookup_witness:
  "get_user_by_email (store example_world) ''a@x.com'' =
     get_user_by_email (store \<lparr>stdout = ''earlier output'', store = Store [example_user]\<rparr>) ''a@x.com'' \<and>
   fst (get_my_user_information () \<lparr>bot.email = ''a@x.com''\<rparr> example_world) =
     fst (get_my_user_information True \<lparr>bot.email = ''a@x.com''\<rparr>
            \<lparr>stdout = ''earlier output'', store = Store [example_user]\<rparr>) \<and>
   get_user_by_email (store example_world) ''b@x.com'' =
     get_user_by_email (store \<lparr>stdout = ''earlier output'', store = Store []\<rparr>) ''c@x.com'' \<and>
   fst (get_my_user_information () \<lparr>bot.email = ''b@x.com''\<rparr> example_world) =
     fst (get_my_user_information True \<lparr>bot.email = ''c@x.com''\<rparr>
            \<lparr>stdout = ''earlier output'', store = Store []\<rparr>)"
  using output_determined_by_lookup
      [of example_world "\<lparr>bot.email = ''a@x.com''\<rparr>"
          "\<lparr>stdout = ''earlier output'', store = Store [example_user]\<rparr>"
          "\<lparr>bot.email = ''a@x.com''\<rparr>" "()" True]
    output_determined_by_lookup
      [of example_world "\<lparr>bot.email = ''b@x.com''\<rparr>"
          "\<lparr>stdout = ''earlier output'', store = Store []\<rparr>"
          "\<lparr>bot.email = ''c@x.com''\<rparr>" "()" True]
  by (simp add: example_world_def example_user_def overdrawn_user_def)

text \<open>
  Claim C8. The tool input has no influence: with the same context object and the same
  world, two calls with any two tool inputs, even of different types, return the same
  string and leave the same world.
\<close>

theorem tool_input_has_no_influence:
  "get_my_user_information (t1 :: 'a) b w = get_my_user_information (t2 :: 'b) b w"
  by (simp add: get_my_user_information_def)

text \<open>
  Claim C9. The call does not write to the store: on every outcome (found, not found or
  failed) the store after the call is the store before it, user records included. The
  one thing the call changes is the standard output, which gains the banner line.
\<close>

theorem store_is_only_read:
  "store (snd (get_my_user_information tool_input b w)) = store w \<and>
   stdout (snd (get_my_user_information tool_input b w)) =
     stdout w @ banner (bot.email b) @ [newline]"
  by (simp add: world_after_call print_def)

subsection \<open>Telling found from not found\<close>

lemma content_starts_with_heading: "\<exists>rest. content u = CHR 0xE6 # rest"
  by (simp add: content_def report_head_def zh_heading_def)

text \<open>
  Claim C10. No report of a user equals the text \<^verbatim>\<open>No user information\<close>, since a report
  starts with the heading; so the operation returns that text exactly when the lookup
  found no user, and the two outcomes can be told apart from the output alone.
\<close>

theorem found_report_is_not_the_sentinel:
  "content u \<noteq> ''No user information'' \<and>
   (fst (get_my_user_information tool_input b w) = Inr ''No user information'') =
     (get_user_by_email (store w) (bot.email b) = Inr None)"
proof -
  have n: "content v \<noteq> ''No user information''" for v
    using content_starts_with_heading [of v] by auto
  show ?thesis
    using n by (auto simp add: result_by_lookup split: sum.splits option.splits)
qed

end
